theory Spec2Isabelle
  imports Complex_Main "HOL-Library.Word" "HOL-Library.Sublist" "HOL-Library.Multiset"
begin

unbundle bit_operations_syntax

section \<open>Schema model (src/schema.go)\<close>

text \<open>
  The three structs of schema.go. An index holds pointers to columns in the source, but
  every use of them (\<open>Equal\<close>, \<open>IsIn\<close>, SQL emission) reads the fields only, so the
  columns of an index are modelled as values.
\<close>

record Column =
  Name :: string
  Type :: string
  Required :: bool
  Default :: string
  PrimaryKey :: bool

record Index =
  Name :: string
  Columns :: "Column list"

record Schema =
  Name :: string
  Columns :: "Column list"
  Indexes :: "Index list"

text \<open>
  The loops of the form
  \<^verbatim>\<open>for index, x := range xs { write(x); if index < len(xs)-1 { write(", ") } }\<close>
  that \<open>CreateTableSQL\<close>, \<open>SQLMigrate\<close> and \<open>CreateIndexSQL\<close> share.
\<close>

fun write_separated :: "string list \<Rightarrow> string" where
  "write_separated [] = []"
| "write_separated [x] = x"
| "write_separated (x # y # ys) = x @ '', '' @ write_separated (y # ys)"

definition ColumnSQL :: "Column \<Rightarrow> string" where
  "ColumnSQL c =
     Column.Name c @ '' '' @ Type c
     @ (if Required c then '' NOT NULL'' else [])
     @ (if PrimaryKey c then '' PRIMARY KEY'' else [])
     @ (if Default c \<noteq> [] then '' DEFAULT '' @ Default c else [])"

definition Column_Equal :: "Column \<Rightarrow> Column \<Rightarrow> bool" where
  "Column_Equal c other \<longleftrightarrow>
     Column.Name c = Column.Name other \<and> Type c = Type other \<and> Required c = Required other
     \<and> Default c = Default other \<and> PrimaryKey c = PrimaryKey other"

fun Column_IsIn :: "Column \<Rightarrow> Column list \<Rightarrow> bool" where
  "Column_IsIn c [] = False"
| "Column_IsIn c (column # columns) = (if Column_Equal column c then True else Column_IsIn c columns)"

definition CreateIndexSQL :: "Index \<Rightarrow> string \<Rightarrow> string" where
  "CreateIndexSQL i tablename =
     ''CREATE INDEX IF NOT EXISTS '' @ (tablename @ ''_'' @ Index.Name i)
     @ '' ON '' @ tablename @ ''(''
     @ write_separated (map Column.Name (Index.Columns i)) @ '')''"

definition Index_Equal :: "Index \<Rightarrow> Index \<Rightarrow> bool" where
  "Index_Equal i other =
     (if length (Index.Columns i) \<noteq> length (Index.Columns other) then False
      else if list_ex (\<lambda>column. \<not> Column_IsIn column (Index.Columns i)) (Index.Columns other) then False
      else Index.Name i = Index.Name other)"

fun Index_IsIn :: "Index \<Rightarrow> Index list \<Rightarrow> bool" where
  "Index_IsIn i [] = False"
| "Index_IsIn i (index # indexes) = (if Index_Equal index i then True else Index_IsIn i indexes)"

definition CreateTableSQL :: "Schema \<Rightarrow> string" where
  "CreateTableSQL s =
     ''CREATE TABLE IF NOT EXISTS '' @ Schema.Name s @ ''(''
     @ write_separated (map ColumnSQL (Schema.Columns s)) @ '')''"

text \<open>
  \<open>GenerateDifference\<close>: four loops, each appending the elements of one list that are not
  \<open>IsIn\<close> the other, in the order of the list walked. Result order as in the source:
  (addColumns, removeColumns, addIndexes, removeIndexes).
\<close>

definition GenerateDifference ::
  "Schema \<Rightarrow> Schema \<Rightarrow> Column list \<times> Column list \<times> Index list \<times> Index list" where
  "GenerateDifference s other =
     (filter (\<lambda>col. \<not> Column_IsIn col (Schema.Columns s)) (Schema.Columns other),
      filter (\<lambda>col. \<not> Column_IsIn col (Schema.Columns other)) (Schema.Columns s),
      filter (\<lambda>index. \<not> Index_IsIn index (Schema.Indexes s)) (Schema.Indexes other),
      filter (\<lambda>index. \<not> Index_IsIn index (Schema.Indexes other)) (Schema.Indexes s))"

definition SQLMigrate :: "Schema \<Rightarrow> string \<Rightarrow> Column list \<Rightarrow> string" where
  "SQLMigrate s otherTableName columns =
     ''INSERT INTO '' @ Schema.Name s @ ''(''
     @ write_separated (map Column.Name columns) @ '')''
     @ '' SELECT '' @ write_separated (map Column.Name columns)
     @ '' FROM '' @ otherTableName"

text \<open>The statement both branches of \<open>AlterSchemaSQL\<close> build for an index to drop.\<close>

definition drop_index_query :: "Schema \<Rightarrow> Index \<Rightarrow> string" where
  "drop_index_query s index = ''DROP INDEX IF EXISTS '' @ (Schema.Name s @ ''_'' @ Index.Name index)"

definition tableChanges :: "Schema \<Rightarrow> Schema \<Rightarrow> bool" where
  "tableChanges s other =
     (case GenerateDifference s other of
        (addColumns, removeColumns, addIndexes, removeIndexes) \<Rightarrow>
          length addColumns \<noteq> 0 \<or> length removeColumns \<noteq> 0 \<or> Schema.Name s \<noteq> Schema.Name other)"

text \<open>
  \<open>base.AlterSchemaSQL(other)\<close>: by its own documentation the SQL "that takes us FROM base
  TO other".
\<close>

definition AlterSchemaSQL :: "Schema \<Rightarrow> Schema \<Rightarrow> string list" where
  "AlterSchemaSQL s other =
     (case GenerateDifference s other of
        (addColumns, removeColumns, addIndexes, removeIndexes) \<Rightarrow>
          if tableChanges s other then
            (let tmpTableName = Schema.Name s @ ''_tmp'';
                 keptColumns = filter (\<lambda>col. Column_IsIn col (Schema.Columns other)) (Schema.Columns s)
             in map (drop_index_query s) (Schema.Indexes s)
                @ [''ALTER TABLE '' @ Schema.Name s @ '' RENAME TO '' @ tmpTableName]
                @ [CreateTableSQL other]
                @ map (\<lambda>index. CreateIndexSQL index (Schema.Name other)) (Schema.Indexes other)
                @ [SQLMigrate s tmpTableName keptColumns])
          else
            map (drop_index_query s) removeIndexes
            @ map (\<lambda>index. CreateIndexSQL index (Schema.Name other)) addIndexes)"

section \<open>Migration (the store, src/utils_test.go)\<close>

text \<open>
  The file src/utils_test.go holds three files one after the other; the store is the last
  of them (from line 384 on), with \<open>NewDB\<close>, \<open>Migrate\<close> and \<open>QuerySimilarity\<close>.

  \<open>NewDB\<close>: the schema a store keeps is the caller's schema with a default name when none
  is given and with the reserved column \<open>vector\<close> appended when no column has that name.
\<close>

definition NewDB :: "Schema \<Rightarrow> Schema" where
  "NewDB schema =
     (let schema = (if Schema.Name schema = [] then schema\<lparr>Schema.Name := ''VectorCollection''\<rparr> else schema)
      in if list_ex (\<lambda>column. Column.Name column = ''vector'') (Schema.Columns schema) then schema
         else schema\<lparr>Schema.Columns := Schema.Columns schema @
                [\<lparr>Column.Name = ''vector'', Type = ''BLOB'', Required = False, Default = [], PrimaryKey = False\<rparr>]\<rparr>)"

text \<open>
  The relational backend is an external collaborator. Its state is a value of type \<open>'db\<close>;
  \<open>Exec\<close> is a parameter that takes the state and a statement and gives the new state and an
  optional error; \<open>FromSQL\<close> (the catalog reader, which only queries the backend) is a
  parameter that gives an error, \<open>None\<close> for a table that does not exist, or the live schema.
  \<open>exec_each\<close> is the loop of \<open>createTable\<close> and \<open>alterTable\<close>: it executes the statements
  in order and stops at the first error.
\<close>

fun exec_each :: "('db \<Rightarrow> string \<Rightarrow> 'db \<times> 'e option) \<Rightarrow> 'db \<Rightarrow> string list \<Rightarrow> 'db \<times> 'e option" where
  "exec_each Exec db [] = (db, None)"
| "exec_each Exec db (query # queries) =
     (case Exec db query of
        (db', Some err) \<Rightarrow> (db', Some err)
      | (db', None) \<Rightarrow> exec_each Exec db' queries)"

definition createTable :: "('db \<Rightarrow> string \<Rightarrow> 'db \<times> 'e option) \<Rightarrow> 'db \<Rightarrow> Schema \<Rightarrow> 'db \<times> 'e option" where
  "createTable Exec db schema =
     (case Exec db (CreateTableSQL schema) of
        (db', Some err) \<Rightarrow> (db', Some err)
      | (db', None) \<Rightarrow>
          exec_each Exec db' (map (\<lambda>index. CreateIndexSQL index (Schema.Name schema)) (Schema.Indexes schema)))"

text \<open>\<open>db.alterTable(other)\<close>: \<open>db.schema\<close> is the receiver of \<open>AlterSchemaSQL\<close>.\<close>

definition alterTable :: "('db \<Rightarrow> string \<Rightarrow> 'db \<times> 'e option) \<Rightarrow> 'db \<Rightarrow> Schema \<Rightarrow> Schema \<Rightarrow> 'db \<times> 'e option" where
  "alterTable Exec db schema other = exec_each Exec db (AlterSchemaSQL schema other)"

text \<open>
  \<open>db.Migrate()\<close>: \<open>schema\<close> is \<open>db.schema\<close>, the desired schema given to \<open>NewDB\<close>;
  \<open>discoveredSchema\<close> is what \<open>FromSQL\<close> read from the backend.
\<close>

definition Migrate ::
  "('db \<Rightarrow> string \<Rightarrow> 'e + Schema option) \<Rightarrow> ('db \<Rightarrow> string \<Rightarrow> 'db \<times> 'e option) \<Rightarrow> 'db \<Rightarrow> Schema
     \<Rightarrow> 'db \<times> 'e option" where
  "Migrate FromSQL Exec db schema =
     (case FromSQL db (Schema.Name schema) of
        Inl err \<Rightarrow> (db, Some err)
      | Inr None \<Rightarrow> createTable Exec db schema
      | Inr (Some discoveredSchema) \<Rightarrow> alterTable Exec db schema discoveredSchema)"

text \<open>
  A backend that accepts every statement and records it: its state is the list of the
  statements executed so far.
\<close>

definition recording_Exec :: "string list \<Rightarrow> string \<Rightarrow> string list \<times> unit option" where
  "recording_Exec executed query = (executed @ [query], None)"

subsection \<open>Kinds of statement\<close>

definition is_rename :: "string \<Rightarrow> bool" where
  "is_rename query \<longleftrightarrow> prefix ''ALTER TABLE '' query"

definition is_create_table :: "string \<Rightarrow> bool" where
  "is_create_table query \<longleftrightarrow> prefix ''CREATE TABLE '' query"

definition is_row_copy :: "string \<Rightarrow> bool" where
  "is_row_copy query \<longleftrightarrow> prefix ''INSERT INTO '' query"

definition is_drop_index :: "string \<Rightarrow> bool" where
  "is_drop_index query \<longleftrightarrow> prefix ''DROP INDEX '' query"

definition is_create_index :: "string \<Rightarrow> bool" where
  "is_create_index query \<longleftrightarrow> prefix ''CREATE INDEX '' query"

definition is_drop_table :: "string \<Rightarrow> bool" where
  "is_drop_table query \<longleftrightarrow> prefix ''DROP TABLE '' query"

subsection \<open>Example schemas\<close>

text \<open>The columns and indexes of \<open>getColumns\<close> and \<open>getIndexes\<close> in schema_test.go.\<close>

definition col_id :: Column where
  "col_id = \<lparr>Column.Name = ''id'', Type = ''TEXT'', Required = True, Default = [], PrimaryKey = True\<rparr>"

definition col_user :: Column where
  "col_user = \<lparr>Column.Name = ''user'', Type = ''INT'', Required = False, Default = [], PrimaryKey = False\<rparr>"


definition idx_id :: Index where
  "idx_id = \<lparr>Index.Name = ''id'', Columns = [col_id]\<rparr>"







definition col_vector :: Column where
  "col_vector = \<lparr>Column.Name = ''vector'', Type = ''BLOB'', Required = False, Default = [], PrimaryKey = False\<rparr>"

text \<open>
  A live table with the columns \<open>id\<close>, \<open>user\<close> and \<open>vector\<close>, and a caller's schema for
  the same table that keeps only \<open>id\<close>.
\<close>

definition liveSchema :: Schema where
  "liveSchema = \<lparr>Name = ''T'', Columns = [col_id, col_user, col_vector], Indexes = []\<rparr>"

definition desiredSchema :: Schema where
  "desiredSchema = \<lparr>Name = ''T'', Columns = [col_id], Indexes = []\<rparr>"

text \<open>A small table, and the same table without its column \<open>user\<close>.\<close>

definition wideSchema :: Schema where
  "wideSchema = \<lparr>Name = ''T'', Columns = [col_id, col_user], Indexes = [idx_id]\<rparr>"

definition narrowSchema :: Schema where
  "narrowSchema = \<lparr>Name = ''T'', Columns = [col_id], Indexes = [idx_id]\<rparr>"

section \<open>Vector codec (src/vector.go)\<close>

text \<open>
  The file src/vector.go holds two revisions of vector.go; the model follows the first
  (lines 1 to 160), the one whose similarity functions have an error result.

  A \<open>float64\<close> is modelled by its IEEE-754 bit pattern, a 64-bit word: \<open>math.Float64bits\<close>
  and \<open>math.Float64frombits\<close> reinterpret the same 64 bits, so both are the identity on
  the representation. A Go runtime panic is a value of \<open>go_panic\<close>.
\<close>

type_synonym byte = "8 word"

type_synonym float64 = "64 word"

datatype go_panic = SliceBoundsOutOfRange | IndexOutOfRange

record Vector =
  Metadata :: "string \<rightharpoonup> string"
  Vector :: "float64 list"

definition Float64bits :: "float64 \<Rightarrow> 64 word" where
  "Float64bits f = f"

definition Float64frombits :: "64 word \<Rightarrow> float64" where
  "Float64frombits b = b"

text \<open>
  \<open>binary.LittleEndian.PutUint64(b, v)\<close> stores \<open>byte(v)\<close>, \<open>byte(v >> 8)\<close>, ...,
  \<open>byte(v >> 56)\<close> in \<open>b[0]\<close>, ..., \<open>b[7]\<close>; \<open>binary.LittleEndian.Uint64(b)\<close> is
  \<open>uint64(b[0]) | uint64(b[1])<<8 | ... | uint64(b[7])<<56\<close>.
\<close>

definition PutUint64 :: "64 word \<Rightarrow> byte list" where
  "PutUint64 v =
     [ucast v, ucast (drop_bit 8 v), ucast (drop_bit 16 v), ucast (drop_bit 24 v),
      ucast (drop_bit 32 v), ucast (drop_bit 40 v), ucast (drop_bit 48 v), ucast (drop_bit 56 v)]"

definition Uint64 :: "byte list \<Rightarrow> 64 word" where
  "Uint64 b =
     ucast (b ! 0) OR push_bit 8 (ucast (b ! 1)) OR push_bit 16 (ucast (b ! 2))
     OR push_bit 24 (ucast (b ! 3)) OR push_bit 32 (ucast (b ! 4)) OR push_bit 40 (ucast (b ! 5))
     OR push_bit 48 (ucast (b ! 6)) OR push_bit 56 (ucast (b ! 7))"

text \<open>
  Writing \<open>new\<close> through the sub-slice \<open>array[start : start + len(new)]\<close>. \<open>ToBytes\<close> only
  does so inside the array it has allocated.
\<close>

definition write_at :: "nat \<Rightarrow> 'a list \<Rightarrow> 'a list \<Rightarrow> 'a list" where
  "write_at start new array = take start array @ new @ drop (start + length new) array"

fun ToBytes_loop :: "nat \<Rightarrow> float64 list \<Rightarrow> byte list \<Rightarrow> byte list" where
  "ToBytes_loop index [] byteArray = byteArray"
| "ToBytes_loop index (val # rest) byteArray =
     ToBytes_loop (index + 1) rest (write_at (index * 8) (PutUint64 (Float64bits val)) byteArray)"

definition ToBytes :: "Vector \<Rightarrow> byte list" where
  "ToBytes v = ToBytes_loop 0 (Vector v) (replicate (length (Vector v) * 8) 0)"

text \<open>
  \<open>FromBytes\<close>: \<open>bytes\<close> are the \<open>len(bytes)\<close> bytes of the argument and \<open>capacity\<close> is its
  \<open>cap(bytes)\<close>. The slice expression \<open>bytes[start:end]\<close> panics when \<open>end\<close> exceeds the
  capacity, the assignment to \<open>v.Vector[index/8]\<close> when the index is not below the length of
  the vector allocated with \<open>len(bytes)/8\<close> components. When the slice expression reaches
  beyond \<open>len(bytes)\<close> without a panic, the assignment panics, so the bytes beyond the length
  never reach the result. The function returns the new value of \<open>v.Vector\<close>.
\<close>

function FromBytes_loop :: "nat \<Rightarrow> byte list \<Rightarrow> nat \<Rightarrow> float64 list \<Rightarrow> go_panic + float64 list" where
  "FromBytes_loop capacity bytes index vec =
     (if index < length bytes then
        (if capacity < index + 8 then Inl SliceBoundsOutOfRange
         else if length vec \<le> index div 8 then Inl IndexOutOfRange
         else FromBytes_loop capacity bytes (index + 8)
                (vec[index div 8 := Float64frombits (Uint64 (take 8 (drop index bytes)))]))
      else Inr vec)"
  by pat_completeness auto
termination
  by (relation "measure (\<lambda>(capacity, bytes, index, vec). length bytes - index)") auto

declare FromBytes_loop.simps [simp del]

definition FromBytes :: "nat \<Rightarrow> byte list \<Rightarrow> go_panic + float64 list" where
  "FromBytes capacity bytes = FromBytes_loop capacity bytes 0 (replicate (length bytes div 8) 0)"

text \<open>
  The encoding as the specification words it: exactly 8 bytes per component, little-endian,
  concatenated in index order, with no length prefix or header.
\<close>

definition encode_spec :: "float64 list \<Rightarrow> byte list" where
  "encode_spec embedding = concat (map (\<lambda>val. PutUint64 (Float64bits val)) embedding)"

text \<open>The component that the eight bytes from position \<open>8 * k\<close> on decode to.\<close>

definition decode_at :: "byte list \<Rightarrow> nat \<Rightarrow> float64" where
  "decode_at bytes k = Float64frombits (Uint64 (take 8 (drop (8 * k) bytes)))"

section \<open>Similarity engine (src/vector.go)\<close>

text \<open>
  Scores are \<open>float64\<close> values on which the code computes and compares; they are modelled
  as real numbers, so rounding, infinities and NaN are outside the model. The functions
  \<open>govector.Cosine\<close> and \<open>govector.DotProduct\<close> belong to an external library: they are
  parameters that give an error or a score.
\<close>

record 'e govector =
  Cosine :: "float64 list \<Rightarrow> float64 list \<Rightarrow> 'e + real"
  DotProduct :: "float64 list \<Rightarrow> float64 list \<Rightarrow> 'e + real"

definition COSINE :: int where
  "COSINE = 0"

definition EUCLIDEAN :: int where
  "EUCLIDEAN = 1"

definition DOT_PRODUCT :: int where
  "DOT_PRODUCT = 2"

record SimilarityOptions =
  Method :: int
  Workers :: int

definition DefaultSimilarityOptions :: SimilarityOptions where
  "DefaultSimilarityOptions = \<lparr>Method = COSINE, Workers = 50\<rparr>"

text \<open>What a call can do: return a value, return an error, panic, or never return.\<close>

datatype ('e, 'a) outcome = Returns 'a | Fails 'e | Panics go_panic | Blocks

definition cosineSimilarity :: "'e govector \<Rightarrow> Vector \<Rightarrow> Vector \<Rightarrow> 'e + real" where
  "cosineSimilarity lib v vector = Cosine lib (Vector v) (Vector vector)"

definition euclideanDistance :: "Vector \<Rightarrow> Vector \<Rightarrow> 'e + real" where
  "euclideanDistance v vector = Inr 0"

definition dotProduct :: "'e govector \<Rightarrow> Vector \<Rightarrow> Vector \<Rightarrow> 'e + real" where
  "dotProduct lib v vector = DotProduct lib (Vector v) (Vector vector)"

definition SimilarityToVector ::
  "'e govector \<Rightarrow> Vector \<Rightarrow> Vector \<Rightarrow> SimilarityOptions option \<Rightarrow> 'e + real" where
  "SimilarityToVector lib v other options =
     (let options = (case options of None \<Rightarrow> DefaultSimilarityOptions | Some given \<Rightarrow> given)
      in if Method options = COSINE then cosineSimilarity lib v other
         else if Method options = EUCLIDEAN then euclideanDistance v other
         else if Method options = DOT_PRODUCT then dotProduct lib v other
         else cosineSimilarity lib v other)"

text \<open>
  The Euclidean score as the specification words it, on the numbers that the components
  of two embeddings denote: the negative Euclidean distance.
\<close>

definition negative_euclidean_distance :: "real list \<Rightarrow> real list \<Rightarrow> real" where
  "negative_euclidean_distance a b = - sqrt (sum_list (map (\<lambda>(x, y). (x - y) ^ 2) (zip a b)))"

text \<open>
  The worker pool of \<open>SimilarityToVectorSet\<close>. The main goroutine sends the indexes in
  order over an unbuffered channel; every worker runs the same loop, so which worker takes
  an index does not matter, only how many workers are still in their loop (\<open>alive\<close>):
  \<^item> a send completes once a worker is back at \<open>range indexChannel\<close>; with no worker left
    it never completes and the call does not return (\<open>None\<close>);
  \<^item> a worker whose computation succeeds stores the score at its index and goes on;
  \<^item> a worker whose computation fails executes \<open>return nil\<close>: it leaves its loop, and the
    value its goroutine hands to the group is \<open>nil\<close> (\<open>None\<close>);
  \<^item> after \<open>close(indexChannel)\<close> every remaining worker returns \<open>nil\<close>.
  A worker takes indexes in increasing order and ends at most once, so the workers that
  have ended when the send of an index can no longer be served are exactly those that
  failed on an earlier index. \<open>returned\<close> collects the values the goroutines returned.
\<close>

fun worker_pool ::
  "(Vector \<Rightarrow> 'e + real) \<Rightarrow> nat \<Rightarrow> nat \<Rightarrow> Vector list \<Rightarrow> real list \<Rightarrow> 'e option list
     \<Rightarrow> (real list \<times> 'e option list) option" where
  "worker_pool compute alive index [] similarities returned =
     Some (similarities, returned @ replicate alive None)"
| "worker_pool compute alive index (vector # rest) similarities returned =
     (if alive = 0 then None
      else case compute vector of
             Inl err \<Rightarrow> worker_pool compute (alive - 1) (index + 1) rest similarities (returned @ [None])
           | Inr similarity \<Rightarrow>
               worker_pool compute alive (index + 1) rest (similarities[index := similarity]) returned)"

text \<open>\<open>group.Wait()\<close>: the first non-nil error a goroutine of the group returned.\<close>

definition group_Wait :: "'e option list \<Rightarrow> 'e option" where
  "group_Wait returned = (case filter (\<lambda>r. r \<noteq> None) returned of [] \<Rightarrow> None | r # rs \<Rightarrow> r)"

definition SimilarityToVectorSet ::
  "'e govector \<Rightarrow> Vector \<Rightarrow> Vector list \<Rightarrow> SimilarityOptions option \<Rightarrow> ('e, real list) outcome" where
  "SimilarityToVectorSet lib v vectors options =
     (let options = (case options of None \<Rightarrow> DefaultSimilarityOptions | Some given \<Rightarrow> given);
          options = (if Workers options = 0
                     then options\<lparr>Workers := Workers DefaultSimilarityOptions\<rparr> else options);
          similarities = replicate (length vectors) 0;
          workers = (if Workers options > int (length vectors) then int (length vectors)
                     else Workers options)
      in case worker_pool (\<lambda>other. SimilarityToVector lib v other (Some options))
                (nat workers) 0 vectors similarities [] of
           None \<Rightarrow> Blocks
         | Some (similarities, returned) \<Rightarrow>
             (case group_Wait returned of
                Some err \<Rightarrow> Fails err
              | None \<Rightarrow> Returns similarities))"

section \<open>Similarity query (the store, src/utils_test.go)\<close>

text \<open>
  A Go slice: the backing array from the slice's first element up to its capacity, and its
  length. \<open>elems\<close> are the elements a reader of the slice sees. \<open>slice_to s high\<close> is the
  slice expression \<open>s[0:high]\<close>, which panics when \<open>high\<close> is negative or exceeds the
  capacity and otherwise keeps the backing array.
\<close>

record 'a slice =
  array :: "'a list"
  len :: nat

definition elems :: "'a slice \<Rightarrow> 'a list" where
  "elems s = take (len s) (array s)"

definition cap :: "'a slice \<Rightarrow> nat" where
  "cap s = length (array s)"

definition make_slice :: "'a list \<Rightarrow> 'a slice" where
  "make_slice xs = \<lparr>array = xs, len = length xs\<rparr>"

definition slice_to :: "'a slice \<Rightarrow> int \<Rightarrow> go_panic + 'a slice" where
  "slice_to s high =
     (if 0 \<le> high \<and> nat high \<le> cap s then Inr (s\<lparr>len := nat high\<rparr>) else Inl SliceBoundsOutOfRange)"

record FilterOptions =
  SimilarityOptions :: "SimilarityOptions option"
  StdDeviations :: real
  Limit :: int

definition DefaultFilterOptions :: FilterOptions where
  "DefaultFilterOptions =
     \<lparr>SimilarityOptions = Some DefaultSimilarityOptions, StdDeviations = 3 / 2, Limit = 0\<rparr>"

definition meanAndStandardDeviation :: "real list \<Rightarrow> real \<times> real" where
  "meanAndStandardDeviation vals =
     (let mean = fold (\<lambda>val mean. mean + val) vals 0 / real (length vals);
          variance = fold (\<lambda>val variance. variance + (val - mean) ^ 2) vals 0 / real (length vals)
      in (mean, sqrt variance))"

text \<open>
  A \<open>*Vector\<close> is an address (a natural number) and \<open>heap\<close> gives the struct at an address.
  \<open>sortMap\<close> is keyed by address; reading a Go map at a missing key gives the zero value.
\<close>

definition build_sortMap :: "nat list \<Rightarrow> real list \<Rightarrow> (nat \<rightharpoonup> real)" where
  "build_sortMap vectors similarities =
     fold (\<lambda>(vector, similarity) sortMap. sortMap(vector \<mapsto> similarity)) (zip vectors similarities) Map.empty"

definition map_at :: "(nat \<rightharpoonup> real) \<Rightarrow> nat \<Rightarrow> real" where
  "map_at sortMap vector = (case sortMap vector of None \<Rightarrow> 0 | Some similarity \<Rightarrow> similarity)"

text \<open>
  The sorting block of \<open>QuerySimilarity\<close>. \<open>sort.Slice\<close> belongs to the standard library and
  is a parameter, \<open>sort_Slice lessFn xs\<close>; the comparison it is given reads \<open>sortMap\<close> at the
  two elements compared. It sorts \<open>vectors\<close> in place, and \<open>sortedSimilarities\<close> is a new
  slice of exactly \<open>len(similarities)\<close> elements.
\<close>

definition sort_block ::
  "((nat \<Rightarrow> nat \<Rightarrow> bool) \<Rightarrow> nat list \<Rightarrow> nat list) \<Rightarrow> nat slice \<Rightarrow> real list \<Rightarrow> nat slice \<times> real slice" where
  "sort_block sort_Slice vectors similarities =
     (let sortMap = build_sortMap (elems vectors) similarities;
          vectors = vectors\<lparr>array :=
                      sort_Slice (\<lambda>a b. map_at sortMap a > map_at sortMap b) (elems vectors)
                      @ drop (len vectors) (array vectors)\<rparr>;
          sortedSimilarities = make_slice (map (map_at sortMap) (elems vectors))
      in (vectors, sortedSimilarities))"

text \<open>
  The loop that looks for \<open>cutoffIndex\<close>: it starts from 0 and is set, once, at the first
  score below \<open>outlier\<close>.
\<close>

fun find_cutoffIndex :: "real \<Rightarrow> nat \<Rightarrow> real list \<Rightarrow> nat" where
  "find_cutoffIndex outlier index [] = 0"
| "find_cutoffIndex outlier index (similarity # rest) =
     (if similarity < outlier then index else find_cutoffIndex outlier (index + 1) rest)"

text \<open>
  The block guarded by \<open>options.StdDeviations > 0\<close>. \<open>cutoffIndex\<close> is an index of the
  slices, so the two slice expressions cannot panic; they keep the backing arrays.
\<close>

definition cutoff_block :: "real \<Rightarrow> nat slice \<times> real slice \<Rightarrow> nat slice \<times> real slice" where
  "cutoff_block stdDeviations ranked =
     (case ranked of (vectors, sortedSimilarities) \<Rightarrow>
        (case meanAndStandardDeviation (elems sortedSimilarities) of (mean, stdDev) \<Rightarrow>
           (let outlier = mean + stdDeviations * stdDev;
                cutoffIndex = find_cutoffIndex outlier 0 (elems sortedSimilarities)
            in (vectors\<lparr>len := cutoffIndex\<rparr>, sortedSimilarities\<lparr>len := cutoffIndex\<rparr>))))"

text \<open>The last statement: both slice expressions are evaluated, the one on \<open>vectors\<close> first.\<close>

definition limit_block :: "int \<Rightarrow> nat slice \<times> real slice \<Rightarrow> ('e, nat slice \<times> real slice) outcome" where
  "limit_block limit ranked =
     (case ranked of (vectors, sortedSimilarities) \<Rightarrow>
        if limit = 0 then Returns (vectors, sortedSimilarities)
        else (case slice_to vectors limit of
                Inl p \<Rightarrow> Panics p
              | Inr limitedVectors \<Rightarrow>
                  (case slice_to sortedSimilarities limit of
                     Inl p \<Rightarrow> Panics p
                   | Inr limitedSimilarities \<Rightarrow> Returns (limitedVectors, limitedSimilarities))))"

text \<open>
  \<open>QuerySimilarity\<close>. \<open>queried\<close> is what \<open>db.Query(filter)\<close> gave: an error, or the slice of the
  addresses of the decoded rows, with the capacity \<open>append\<close> left it. \<open>options_or_default\<close>
  is the first statement, which replaces absent options by \<open>DefaultFilterOptions\<close>.
\<close>

definition options_or_default :: "FilterOptions option \<Rightarrow> FilterOptions" where
  "options_or_default options = (case options of None \<Rightarrow> DefaultFilterOptions | Some given \<Rightarrow> given)"

definition QuerySimilarity ::
  "'e govector \<Rightarrow> ((nat \<Rightarrow> nat \<Rightarrow> bool) \<Rightarrow> nat list \<Rightarrow> nat list) \<Rightarrow> (nat \<Rightarrow> Vector) \<Rightarrow> Vector
     \<Rightarrow> 'e + nat slice \<Rightarrow> FilterOptions option \<Rightarrow> ('e, nat slice \<times> real slice) outcome" where
  "QuerySimilarity lib sort_Slice heap target queried options =
     (let options = options_or_default options
      in case queried of
           Inl err \<Rightarrow> Fails err
         | Inr vectors \<Rightarrow>
             (case SimilarityToVectorSet lib target (map heap (elems vectors)) (SimilarityOptions options) of
                Fails err \<Rightarrow> Fails err
              | Panics p \<Rightarrow> Panics p
              | Blocks \<Rightarrow> Blocks
              | Returns similarities \<Rightarrow>
                  (let ranked = sort_block sort_Slice vectors similarities;
                       ranked = (if StdDeviations options > 0
                                 then cutoff_block (StdDeviations options) ranked else ranked)
                   in limit_block (Limit options) ranked)))"

text \<open>
  The cutoff as the specification words it: keep the longest prefix of the sorted list
  whose scores are at least the threshold.
\<close>

definition longest_prefix_at_least :: "real \<Rightarrow> real list \<Rightarrow> real list" where
  "longest_prefix_at_least threshold scores = takeWhile (\<lambda>score. score \<ge> threshold) scores"

subsection \<open>The sorting function\<close>

text \<open>
  What the documentation of \<open>sort.Slice\<close> promises for the comparison \<open>QuerySimilarity\<close>
  gives it: the result is a rearrangement of the slice in which no element is followed by
  one that compares less, here one with a higher score. It promises nothing about the
  order of elements that compare equal ("The sort is not guaranteed to be stable").
\<close>

definition sort_Slice_contract :: "((nat \<Rightarrow> nat \<Rightarrow> bool) \<Rightarrow> nat list \<Rightarrow> nat list) \<Rightarrow> bool" where
  "sort_Slice_contract sort_Slice \<longleftrightarrow>
     (\<forall>(score :: nat \<Rightarrow> real) xs.
        mset (sort_Slice (\<lambda>a b. score a > score b) xs) = mset xs
        \<and> sorted_wrt (\<lambda>a b. score a \<ge> score b) (sort_Slice (\<lambda>a b. score a > score b) xs))"

text \<open>
  Two sorting functions that keep this promise. Both insert the elements one by one into
  a sorted list; the first puts an element after the elements it ties with, the second
  before them.
\<close>

fun insert_after_ties :: "('a \<Rightarrow> 'a \<Rightarrow> bool) \<Rightarrow> 'a \<Rightarrow> 'a list \<Rightarrow> 'a list" where
  "insert_after_ties lessFn x [] = [x]"
| "insert_after_ties lessFn x (y # ys) =
     (if lessFn x y then x # y # ys else y # insert_after_ties lessFn x ys)"

definition insertion_sort :: "('a \<Rightarrow> 'a \<Rightarrow> bool) \<Rightarrow> 'a list \<Rightarrow> 'a list" where
  "insertion_sort lessFn xs = foldl (\<lambda>placed x. insert_after_ties lessFn x placed) [] xs"




subsection \<open>Example inputs\<close>

text \<open>The bit patterns of the \<open>float64\<close> values 0.0, 1.0 and 3.0.\<close>

definition f64_0 :: float64 where
  "f64_0 = 0"

definition f64_1 :: float64 where
  "f64_1 = 0x3FF0000000000000"

definition f64_3 :: float64 where
  "f64_3 = 0x4008000000000000"

text \<open>
  A stand-in for the library on the example vectors below: it gives the dot products
  \<open>[1.0] \<cdot> [1.0] = 1.0\<close> and \<open>[1.0] \<cdot> [3.0] = 3.0\<close>, and reports an error for operands of
  different lengths, as the library does. Its \<open>Cosine\<close> gives 1 for the two vectors of one
  positive component.
\<close>

definition example_govector :: "string govector" where
  "example_govector =
     \<lparr>Cosine = (\<lambda>x y. if length x \<noteq> length y then Inl ''different lengths''
                      else if x = [f64_1] \<and> (y = [f64_1] \<or> y = [f64_3]) then Inr 1
                      else Inl ''not tabulated''),
      DotProduct = (\<lambda>x y. if length x \<noteq> length y then Inl ''different lengths''
                          else if x = [f64_1] \<and> y = [f64_1] then Inr 1
                          else if x = [f64_1] \<and> y = [f64_3] then Inr 3
                          else Inl ''not tabulated'')\<rparr>"

definition vec_0 :: Vector where
  "vec_0 = \<lparr>Metadata = Map.empty, Vector = [f64_0]\<rparr>"

definition vec_1 :: Vector where
  "vec_1 = \<lparr>Metadata = Map.empty, Vector = [f64_1]\<rparr>"

definition vec_3 :: Vector where
  "vec_3 = \<lparr>Metadata = Map.empty, Vector = [f64_3]\<rparr>"

definition vec_1_3 :: Vector where
  "vec_1_3 = \<lparr>Metadata = Map.empty, Vector = [f64_1, f64_3]\<rparr>"

text \<open>A heap with \<open>[3.0]\<close> at address 0 and \<open>[1.0]\<close> everywhere else.\<close>

definition example_heap :: "nat \<Rightarrow> Vector" where
  "example_heap address = (if address = 0 then vec_3 else vec_1)"

section \<open>Properties of the migration plan\<close>




lemma CreateIndexSQL_kind:
  "is_create_index (CreateIndexSQL i t)" "\<not> is_rename (CreateIndexSQL i t)"
  "\<not> is_create_table (CreateIndexSQL i t)" "\<not> is_row_copy (CreateIndexSQL i t)"
  "\<not> is_drop_table (CreateIndexSQL i t)"
  by (simp_all add: CreateIndexSQL_def is_create_index_def is_rename_def is_create_table_def
      is_row_copy_def is_drop_table_def)

lemma drop_index_query_kind:
  "is_drop_index (drop_index_query s i)" "\<not> is_rename (drop_index_query s i)"
  "\<not> is_create_table (drop_index_query s i)" "\<not> is_row_copy (drop_index_query s i)"
  "\<not> is_drop_table (drop_index_query s i)"
  by (simp_all add: drop_index_query_def is_drop_index_def is_rename_def is_create_table_def
      is_row_copy_def is_drop_table_def)

lemma rebuild_statement_kinds:
  "\<not> is_drop_table (''ALTER TABLE '' @ a)" "\<not> is_drop_table (CreateTableSQL s)"
  "\<not> is_drop_table (SQLMigrate s t cs)" "is_row_copy (SQLMigrate s t cs)"
  by (simp_all add: is_drop_table_def is_row_copy_def CreateTableSQL_def SQLMigrate_def)

lemmas example_column_defs =
  col_id_def col_user_def idx_id_def

lemmas plan_defs =
  AlterSchemaSQL_def GenerateDifference_def tableChanges_def Index_Equal_def Column_Equal_def
  drop_index_query_def CreateIndexSQL_def CreateTableSQL_def SQLMigrate_def ColumnSQL_def Let_def


lemma rebuild_shape:
  assumes "tableChanges s other"
  shows "AlterSchemaSQL s other =
           map (drop_index_query s) (Schema.Indexes s)
           @ [''ALTER TABLE '' @ Schema.Name s @ '' RENAME TO '' @ (Schema.Name s @ ''_tmp''),
              CreateTableSQL other]
           @ map (\<lambda>index. CreateIndexSQL index (Schema.Name other)) (Schema.Indexes other)
           @ [SQLMigrate s (Schema.Name s @ ''_tmp'')
                (filter (\<lambda>col. Column_IsIn col (Schema.Columns other)) (Schema.Columns s))]"
  using assms by (simp add: AlterSchemaSQL_def GenerateDifference_def Let_def)

lemma exec_each_recording: "exec_each recording_Exec executed queries = (executed @ queries, None)"
  by (induction queries arbitrary: executed) (simp_all add: recording_Exec_def)

lemma Migrate_existing_table:
  "FromSQL db (Schema.Name schema) = Inr (Some discoveredSchema) \<Longrightarrow>
     Migrate FromSQL Exec db schema = exec_each Exec db (AlterSchemaSQL schema discoveredSchema)"
  by (simp add: Migrate_def alterTable_def)

lemma NewDB_desiredSchema:
  "NewDB desiredSchema = \<lparr>Name = ''T'', Columns = [col_id, col_vector], Indexes = []\<rparr>"
  by (simp add: NewDB_def desiredSchema_def col_vector_def col_id_def)



text \<open>
  Claim C6, as the code has it. On the rebuild path (\<open>tableChanges\<close>: a column added or
  removed, or a different table name) the plan drops the indexes of the current table,
  renames it to the temporary name, creates the new table and its indexes, and ends with
  the \<open>INSERT ... SELECT\<close> copy; no statement of the plan is a \<open>DROP TABLE\<close>, so the
  temporary table stays.
\<close>

theorem rebuild_plan_keeps_temporary_table:
  assumes "tableChanges s other"
  shows "AlterSchemaSQL s other =
           map (drop_index_query s) (Schema.Indexes s)
           @ [''ALTER TABLE '' @ Schema.Name s @ '' RENAME TO '' @ (Schema.Name s @ ''_tmp''),
              CreateTableSQL other]
           @ map (\<lambda>index. CreateIndexSQL index (Schema.Name other)) (Schema.Indexes other)
           @ [SQLMigrate s (Schema.Name s @ ''_tmp'')
                (filter (\<lambda>col. Column_IsIn col (Schema.Columns other)) (Schema.Columns s))]
         \<and> is_row_copy (last (AlterSchemaSQL s other))
         \<and> (\<forall>query \<in> set (AlterSchemaSQL s other). \<not> is_drop_table query)"
  unfolding rebuild_shape [OF assms]
  using CreateIndexSQL_kind drop_index_query_kind rebuild_statement_kinds by auto

theorem rebuild_plan_keeps_temporary_table_witness:
  "tableChanges wideSchema narrowSchema
   \<and> AlterSchemaSQL wideSchema narrowSchema =
       [''DROP INDEX IF EXISTS T_id'',
        ''ALTER TABLE T RENAME TO T_tmp'',
        ''CREATE TABLE IF NOT EXISTS T(id TEXT NOT NULL PRIMARY KEY)'',
        ''CREATE INDEX IF NOT EXISTS T_id ON T(id)'',
        ''INSERT INTO T(id) SELECT id FROM T_tmp'']
   \<and> is_row_copy (last (AlterSchemaSQL wideSchema narrowSchema))
   \<and> list_all (\<lambda>query. \<not> is_drop_table query) (AlterSchemaSQL wideSchema narrowSchema)"
proof -
  have h: "tableChanges wideSchema narrowSchema"
    by (simp add: tableChanges_def GenerateDifference_def Column_Equal_def
        wideSchema_def narrowSchema_def example_column_defs)
  note plan = rebuild_plan_keeps_temporary_table [OF h]
  have stmts: "map (drop_index_query wideSchema) (Schema.Indexes wideSchema)
           @ [''ALTER TABLE '' @ Schema.Name wideSchema @ '' RENAME TO '' @ (Schema.Name wideSchema @ ''_tmp''),
              CreateTableSQL narrowSchema]
           @ map (\<lambda>index. CreateIndexSQL index (Schema.Name narrowSchema)) (Schema.Indexes narrowSchema)
           @ [SQLMigrate wideSchema (Schema.Name wideSchema @ ''_tmp'')
                (filter (\<lambda>col. Column_IsIn col (Schema.Columns narrowSchema)) (Schema.Columns wideSchema))]
         = [''DROP INDEX IF EXISTS T_id'',
            ''ALTER TABLE T RENAME TO T_tmp'',
            ''CREATE TABLE IF NOT EXISTS T(id TEXT NOT NULL PRIMARY KEY)'',
            ''CREATE INDEX IF NOT EXISTS T_id ON T(id)'',
            ''INSERT INTO T(id) SELECT id FROM T_tmp'']"
    by (simp add: drop_index_query_def CreateIndexSQL_def CreateTableSQL_def SQLMigrate_def ColumnSQL_def
        Column_Equal_def wideSchema_def narrowSchema_def example_column_defs)
  have eq: "AlterSchemaSQL wideSchema narrowSchema =
       [''DROP INDEX IF EXISTS T_id'',
        ''ALTER TABLE T RENAME TO T_tmp'',
        ''CREATE TABLE IF NOT EXISTS T(id TEXT NOT NULL PRIMARY KEY)'',
        ''CREATE INDEX IF NOT EXISTS T_id ON T(id)'',
        ''INSERT INTO T(id) SELECT id FROM T_tmp'']"
    using plan unfolding stmts by (rule conjunct1)
  have copy: "is_row_copy (last (AlterSchemaSQL wideSchema narrowSchema))"
    using plan by (rule conjunct2 [THEN conjunct1])
  have "\<forall>query \<in> set (AlterSchemaSQL wideSchema narrowSchema). \<not> is_drop_table query"
    using plan by (rule conjunct2 [THEN conjunct2])
  then have kept: "list_all (\<lambda>query. \<not> is_drop_table query) (AlterSchemaSQL wideSchema narrowSchema)"
    by (simp only: list_all_iff)
  from h eq copy kept show ?thesis
    by (intro conjI)
qed

text \<open>
  Claim C6, as stated, fails: dropping the column \<open>user\<close> of \<open>wideSchema\<close> is a rebuild, and
  the plan for it has five statements, none of which drops the temporary table \<open>T_tmp\<close>.
\<close>

theorem rebuild_plan_without_drop_table:
  "tableChanges wideSchema narrowSchema
   \<and> AlterSchemaSQL wideSchema narrowSchema =
       [''DROP INDEX IF EXISTS T_id'',
        ''ALTER TABLE T RENAME TO T_tmp'',
        ''CREATE TABLE IF NOT EXISTS T(id TEXT NOT NULL PRIMARY KEY)'',
        ''CREATE INDEX IF NOT EXISTS T_id ON T(id)'',
        ''INSERT INTO T(id) SELECT id FROM T_tmp'']
   \<and> \<not> list_ex is_drop_table (AlterSchemaSQL wideSchema narrowSchema)"
  by (simp add: plan_defs wideSchema_def narrowSchema_def example_column_defs is_drop_table_def)

text \<open>
  Claim C2 at a concrete store. The live table has the columns \<open>id\<close>, \<open>user\<close> and
  \<open>vector\<close>; the store was built with \<open>NewDB\<close> from a schema that keeps only \<open>id\<close>, so the
  desired table has \<open>id\<close> and \<open>vector\<close>. \<open>Migrate\<close> executes
  \<open>AlterSchemaSQL desired live\<close>, the plan from the desired schema to the live one: the table
  it creates has the column \<open>user\<close> again. The plan from the live schema to the desired one,
  \<open>AlterSchemaSQL live desired\<close>, creates the table without it.
\<close>

theorem Migrate_plans_from_desired_to_live:
  "Migrate (\<lambda>db tablename. Inr (Some liveSchema)) recording_Exec [] (NewDB desiredSchema) =
     ([''ALTER TABLE T RENAME TO T_tmp'',
       ''CREATE TABLE IF NOT EXISTS T(id TEXT NOT NULL PRIMARY KEY, user INT, vector BLOB)'',
       ''INSERT INTO T(id, vector) SELECT id, vector FROM T_tmp''], None)
   \<and> AlterSchemaSQL liveSchema (NewDB desiredSchema) =
       [''ALTER TABLE T RENAME TO T_tmp'',
        ''CREATE TABLE IF NOT EXISTS T(id TEXT NOT NULL PRIMARY KEY, vector BLOB)'',
        ''INSERT INTO T(id, vector) SELECT id, vector FROM T_tmp'']"
  unfolding NewDB_desiredSchema
  by (simp add: Migrate_def alterTable_def recording_Exec_def plan_defs liveSchema_def col_vector_def
      example_column_defs)

section \<open>Properties of the vector codec\<close>

lemma bit_byte_of_word:
  "bit (push_bit k (ucast (ucast (drop_bit k v) :: byte) :: 64 word)) n \<longleftrightarrow> k \<le> n \<and> n < k + 8 \<and> bit v n"
  for v :: "64 word"
  by (auto simp: bit_push_bit_iff bit_ucast_iff bit_drop_bit_eq dest: bit_imp_le_length)

lemma bit_low_byte_of_word:
  "bit (ucast (ucast v :: byte) :: 64 word) n \<longleftrightarrow> n < 8 \<and> bit v n"
  for v :: "64 word"
  by (auto simp: bit_ucast_iff)

lemma Uint64_PutUint64: "Uint64 (PutUint64 v) = v"
proof (rule bit_word_eqI)
  fix n assume n: "n < LENGTH(64)"
  have "bit (Uint64 (PutUint64 v)) n \<longleftrightarrow> n < 64 \<and> bit v n"
    unfolding Uint64_def PutUint64_def
    by (simp add: bit_or_iff bit_byte_of_word bit_low_byte_of_word) arith
  then show "bit (Uint64 (PutUint64 v)) n = bit v n"
    using n by simp
qed

lemma length_PutUint64: "length (PutUint64 v) = 8"
  by (simp add: PutUint64_def)

lemma length_encode_spec: "length (encode_spec vs) = 8 * length vs"
  by (induction vs) (simp_all add: encode_spec_def length_PutUint64)

lemma encode_spec_Cons: "encode_spec (x # xs) = PutUint64 (Float64bits x) @ encode_spec xs"
  by (simp add: encode_spec_def)

lemma ToBytes_loop_encode_spec:
  "length pre = 8 * k \<Longrightarrow>
     ToBytes_loop k vs (pre @ replicate (8 * length vs) 0) = pre @ encode_spec vs"
proof (induction vs arbitrary: k pre)
  case Nil
  then show ?case by (simp add: encode_spec_def)
next
  case (Cons x rest)
  have rep: "replicate (8 * length (x # rest)) (0::byte) = replicate 8 0 @ replicate (8 * length rest) 0"
    by (simp add: replicate_add [symmetric])
  have "write_at (k * 8) (PutUint64 (Float64bits x)) (pre @ replicate (8 * length (x # rest)) 0)
        = (pre @ PutUint64 (Float64bits x)) @ replicate (8 * length rest) 0"
    unfolding rep using Cons.prems by (simp add: write_at_def mult.commute length_PutUint64)
  moreover have "length (pre @ PutUint64 (Float64bits x)) = 8 * (k + 1)"
    using Cons.prems by (simp add: length_PutUint64)
  ultimately show ?case
    using Cons.IH [of "pre @ PutUint64 (Float64bits x)" "k + 1"] by (simp add: encode_spec_Cons)
qed

lemma ToBytes_encode_spec: "ToBytes v = encode_spec (Vector v)"
  using ToBytes_loop_encode_spec [of "[]" 0 "Vector v"] by (simp add: ToBytes_def mult.commute)

lemma chunk_encode_spec:
  "k < length vs \<Longrightarrow> take 8 (drop (8 * k) (encode_spec vs)) = PutUint64 (Float64bits (vs ! k))"
proof (induction vs arbitrary: k)
  case Nil
  then show ?case by simp
next
  case (Cons x xs)
  show ?case
  proof (cases k)
    case 0
    then show ?thesis by (simp add: encode_spec_Cons length_PutUint64)
  next
    case (Suc j)
    then have "j < length xs" using Cons.prems by simp
    from Cons.IH [OF this] Suc show ?thesis
      by (simp add: encode_spec_Cons length_PutUint64)
  qed
qed

lemma decode_at_encode_spec: "k < length vs \<Longrightarrow> decode_at (encode_spec vs) k = vs ! k"
  by (simp add: decode_at_def chunk_encode_spec Uint64_PutUint64 Float64frombits_def Float64bits_def)

text \<open>
  The loop of \<open>FromBytes\<close> from the index \<open>8 * k\<close> on, for an argument whose capacity is at
  least its length: a length that is a multiple of 8 ends in the decoded components, any
  other length in a panic.
\<close>

lemma FromBytes_loop_result:
  assumes "length vec = length bytes div 8" "k \<le> length bytes div 8" "length bytes \<le> capacity"
  shows "FromBytes_loop capacity bytes (8 * k) vec =
           (if length bytes mod 8 = 0 then Inr (take k vec @ map (decode_at bytes) [k..<length bytes div 8])
            else if capacity < 8 * (length bytes div 8) + 8 then Inl SliceBoundsOutOfRange
            else Inl IndexOutOfRange)"
  using assms
proof (induction "length bytes div 8 - k" arbitrary: k vec)
  case 0
  then have k: "k = length bytes div 8" by simp
  show ?case
  proof (cases "length bytes mod 8 = 0")
    case True
    then have "8 * k = length bytes" using k by presburger
    then show ?thesis
      using True k 0 by (subst FromBytes_loop.simps) simp
  next
    case False
    then have "8 * k < length bytes" using k by presburger
    then show ?thesis
      using False k 0 by (subst FromBytes_loop.simps) simp
  qed
next
  case (Suc d)
  then have k: "k < length bytes div 8" by simp
  then have lt: "8 * k + 8 \<le> length bytes" by presburger
  let ?vec = "vec[k := decode_at bytes k]"
  have step: "FromBytes_loop capacity bytes (8 * k) vec = FromBytes_loop capacity bytes (8 * k + 8) ?vec"
    using k lt Suc.prems by (subst FromBytes_loop.simps) (simp add: decode_at_def)
  have idx: "8 * (k + 1) = 8 * k + 8" by simp
  have tk: "take (k + 1) ?vec @ map (decode_at bytes) [k + 1..<length bytes div 8]
            = take k vec @ map (decode_at bytes) [k..<length bytes div 8]"
    using k Suc.prems(1) by (simp add: take_Suc_conv_app_nth upt_conv_Cons)
  have "FromBytes_loop capacity bytes (8 * (k + 1)) ?vec =
           (if length bytes mod 8 = 0
            then Inr (take (k + 1) ?vec @ map (decode_at bytes) [k + 1..<length bytes div 8])
            else if capacity < 8 * (length bytes div 8) + 8 then Inl SliceBoundsOutOfRange
            else Inl IndexOutOfRange)"
    using Suc.hyps(1) [of "k + 1" ?vec] Suc.hyps(2) Suc.prems k by simp
  then show ?case
    unfolding step idx tk by simp
qed

lemma FromBytes_eq:
  assumes "length bytes \<le> capacity"
  shows "FromBytes capacity bytes =
           (if length bytes mod 8 = 0 then Inr (map (decode_at bytes) [0..<length bytes div 8])
            else if capacity < 8 * (length bytes div 8) + 8 then Inl SliceBoundsOutOfRange
            else Inl IndexOutOfRange)"
  using FromBytes_loop_result [of "replicate (length bytes div 8) 0" bytes 0 capacity] assms
  by (simp add: FromBytes_def)

text \<open>
  Claim C9. For every vector, \<open>ToBytes\<close> gives the 8-byte little-endian encodings of its
  components in index order and nothing else (\<open>encode_spec\<close>), 8 bytes per component, and
  \<open>FromBytes\<close> applied to these bytes, held in a slice of any capacity (the length plus
  \<open>spare\<close>), gives the components back, bit for bit. The empty vector is included: it
  encodes to no bytes, which decode to the empty vector.
\<close>

theorem decode_encode_roundtrip:
  "FromBytes (length (ToBytes v) + spare) (ToBytes v) = Inr (Vector v)
   \<and> ToBytes v = encode_spec (Vector v)
   \<and> length (ToBytes v) = 8 * length (Vector v)"
proof -
  have "map (decode_at (encode_spec (Vector v))) [0..<length (Vector v)] = Vector v"
    by (rule nth_equalityI) (simp_all add: decode_at_encode_spec)
  then show ?thesis
    using FromBytes_eq [of "encode_spec (Vector v)" "length (encode_spec (Vector v)) + spare"]
    by (simp add: ToBytes_encode_spec length_encode_spec)
qed

text \<open>
  Claim C4, as the code has it. \<open>FromBytes\<close> has no error result. For an argument whose
  length is a multiple of 8, zero included, it returns the \<open>length / 8\<close> decoded components.
  For any other length it does not return: it panics, at the slice expression when the
  capacity ends before the next 8 bytes do, and at the assignment to the vector otherwise.
\<close>

theorem FromBytes_result:
  assumes "length bytes \<le> capacity"
  shows "FromBytes capacity bytes =
           (if length bytes mod 8 = 0 then Inr (map (decode_at bytes) [0..<length bytes div 8])
            else if capacity < 8 * (length bytes div 8) + 8 then Inl SliceBoundsOutOfRange
            else Inl IndexOutOfRange)"
  using assms by (rule FromBytes_eq)

theorem FromBytes_result_witness:
  "length [1, 2, 3, 4 :: byte] \<le> 4 \<and> FromBytes 4 [1, 2, 3, 4] = Inl SliceBoundsOutOfRange
   \<and> length [1, 2, 3, 4 :: byte] \<le> 8 \<and> FromBytes 8 [1, 2, 3, 4] = Inl IndexOutOfRange
   \<and> length [0, 0, 0, 0, 0, 0, 0xF0, 0x3F :: byte] \<le> 8
   \<and> FromBytes 8 [0, 0, 0, 0, 0, 0, 0xF0, 0x3F] = Inr [f64_1]"
proof -
  have "decode_at [0, 0, 0, 0, 0, 0, 0xF0, 0x3F] 0 = f64_1"
    by (simp add: decode_at_def Uint64_def Float64frombits_def f64_1_def)
  then show ?thesis
    using FromBytes_result [of "[1, 2, 3, 4]" 4] FromBytes_result [of "[1, 2, 3, 4]" 8]
      FromBytes_result [of "[0, 0, 0, 0, 0, 0, 0xF0, 0x3F]" 8]
    by simp
qed

text \<open>
  Claim C4, as stated, fails: the empty byte sequence has a length that is not a positive
  multiple of 8, and decoding it succeeds with the empty embedding.
\<close>

theorem FromBytes_empty_succeeds: "FromBytes 0 [] = Inr []"
  by (simp add: FromBytes_def FromBytes_loop.simps)

section \<open>Properties of the similarity engine\<close>

lemma worker_pool_returned:
  "worker_pool compute alive index vectors similarities returned = Some (result, returned') \<Longrightarrow>
     \<forall>r \<in> set returned. r = None \<Longrightarrow> \<forall>r \<in> set returned'. r = None"
proof (induction vectors arbitrary: alive index similarities returned)
  case Nil
  then show ?case by auto
next
  case (Cons vector rest)
  from Cons.prems(1) have alive: "alive \<noteq> 0"
    by (simp split: if_splits)
  show ?case
  proof (cases "compute vector")
    case (Inl err)
    with Cons.prems(1) alive
    have "worker_pool compute (alive - 1) (index + 1) rest similarities (returned @ [None])
            = Some (result, returned')"
      by simp
    moreover have "\<forall>r \<in> set (returned @ [None]). r = None"
      using Cons.prems(2) by simp
    ultimately show ?thesis by (rule Cons.IH)
  next
    case (Inr similarity)
    with Cons.prems(1) alive
    have "worker_pool compute alive (index + 1) rest (similarities[index := similarity]) returned
            = Some (result, returned')"
      by simp
    then show ?thesis using Cons.prems(2) by (rule Cons.IH)
  qed
qed

lemma worker_pool_length:
  "worker_pool compute alive index vectors similarities returned = Some (result, returned') \<Longrightarrow>
     length result = length similarities"
proof (induction vectors arbitrary: alive index similarities returned)
  case Nil
  then show ?case by auto
next
  case (Cons vector rest)
  from Cons.prems(1) have alive: "alive \<noteq> 0"
    by (simp split: if_splits)
  show ?case
  proof (cases "compute vector")
    case (Inl err)
    with Cons.prems(1) alive
    have "worker_pool compute (alive - 1) (index + 1) rest similarities (returned @ [None])
            = Some (result, returned')"
      by simp
    then show ?thesis by (rule Cons.IH)
  next
    case (Inr similarity)
    with Cons.prems(1) alive
    have "worker_pool compute alive (index + 1) rest (similarities[index := similarity]) returned
            = Some (result, returned')"
      by simp
    from Cons.IH [OF this] show ?thesis by simp
  qed
qed

lemma group_Wait_None: "\<forall>r \<in> set returned. r = None \<Longrightarrow> group_Wait returned = None"
  by (simp add: group_Wait_def filter_empty_conv [THEN iffD2])

text \<open>
  Every worker returns \<open>nil\<close>, so \<open>group.Wait()\<close> gives \<open>nil\<close>: a call of
  \<open>SimilarityToVectorSet\<close> either never returns or returns one score for every vector.
\<close>

lemma SimilarityToVectorSet_cases:
  obtains (blocks) "SimilarityToVectorSet lib v vectors options = Blocks"
  | (returns) similarities where "SimilarityToVectorSet lib v vectors options = Returns similarities"
      "length similarities = length vectors"
proof -
  define opts where "opts = (case options of None \<Rightarrow> DefaultSimilarityOptions | Some given \<Rightarrow> given)"
  define opts' where
    "opts' = (if Workers opts = 0 then opts\<lparr>Workers := Workers DefaultSimilarityOptions\<rparr> else opts)"
  define workers where
    "workers = (if Workers opts' > int (length vectors) then int (length vectors) else Workers opts')"
  define pool where
    "pool = worker_pool (\<lambda>other. SimilarityToVector lib v other (Some opts'))
              (nat workers) 0 vectors (replicate (length vectors) 0) []"
  have unfold: "SimilarityToVectorSet lib v vectors options =
      (case pool of None \<Rightarrow> Blocks
       | Some (similarities, returned) \<Rightarrow>
             (case group_Wait returned of Some err \<Rightarrow> Fails err | None \<Rightarrow> Returns similarities))"
    by (simp add: SimilarityToVectorSet_def Let_def opts_def opts'_def workers_def pool_def)
  show thesis
  proof (cases pool)
    case None
    then show thesis using unfold blocks by simp
  next
    case (Some p)
    obtain similarities returned where p: "p = (similarities, returned)" by (cases p)
    have pool: "worker_pool (\<lambda>other. SimilarityToVector lib v other (Some opts'))
                (nat workers) 0 vectors (replicate (length vectors) 0) [] = Some (similarities, returned)"
      using Some p pool_def by simp
    have "group_Wait returned = None"
      using worker_pool_returned [OF pool] group_Wait_None by simp
    moreover have "length similarities = length vectors"
      using worker_pool_length [OF pool] by simp
    ultimately show thesis using unfold Some p returns by simp
  qed
qed

lemma SimilarityToVectorSet_never_Fails:
  "SimilarityToVectorSet lib v vectors options \<noteq> Fails err"
  by (cases lib v vectors options rule: SimilarityToVectorSet_cases) simp_all


lemmas similarity_defs =
  SimilarityToVectorSet_def SimilarityToVector_def cosineSimilarity_def dotProduct_def
  euclideanDistance_def group_Wait_def DefaultSimilarityOptions_def
  COSINE_def EUCLIDEAN_def DOT_PRODUCT_def

lemmas example_vector_defs =
  example_govector_def example_heap_def vec_1_def vec_3_def vec_1_3_def f64_1_def f64_3_def

text \<open>
  With one worker and two vectors that both fail, the worker has left its loop when the
  second index is sent: the call never returns.
\<close>

lemma SimilarityToVectorSet_blocks:
  "SimilarityToVectorSet example_govector vec_1 [vec_1_3, vec_1_3]
     (Some \<lparr>Method = DOT_PRODUCT, Workers = 1\<rparr>) = Blocks"
  by (simp add: similarity_defs example_vector_defs)

text \<open>
  Claim C3 on the code. With the method \<open>EUCLIDEAN\<close>, \<open>SimilarityToVector\<close> returns the
  score 0 and no error, whatever the two vectors are: in particular for \<open>[0.0]\<close> and
  \<open>[1.0]\<close>, whose negative Euclidean distance is -1.
\<close>

theorem euclideanDistance_is_zero:
  "SimilarityToVector lib v other (Some \<lparr>Method = EUCLIDEAN, Workers = workers\<rparr>) = Inr 0
   \<and> SimilarityToVector lib vec_0 vec_1 (Some \<lparr>Method = EUCLIDEAN, Workers = 1\<rparr>) = Inr 0
   \<and> negative_euclidean_distance [0] [1] = - 1"
  by (simp add: SimilarityToVector_def euclideanDistance_def EUCLIDEAN_def COSINE_def
      negative_euclidean_distance_def)

text \<open>
  Claim C5 on the code. The base vector has one component and the only candidate has two,
  so the dot product fails; \<open>SimilarityToVectorSet\<close> nevertheless returns normally, with
  the score 0 in the slot of the failed computation.
\<close>

theorem SimilarityToVectorSet_swallows_error:
  "SimilarityToVector example_govector vec_1 vec_1_3 (Some \<lparr>Method = DOT_PRODUCT, Workers = 1\<rparr>)
     = Inl ''different lengths''
   \<and> SimilarityToVectorSet example_govector vec_1 [vec_1_3] (Some \<lparr>Method = DOT_PRODUCT, Workers = 1\<rparr>)
     = Returns [0]"
  by (simp add: similarity_defs example_vector_defs)

section \<open>Properties of the similarity query\<close>

subsection \<open>The two sorting functions keep the promise of sort.Slice\<close>

lemma mset_insert_after_ties: "mset (insert_after_ties lessFn x ys) = add_mset x (mset ys)"
  by (induction ys) simp_all


lemma sorted_insert_after_ties:
  fixes score :: "'a \<Rightarrow> real"
  assumes "sorted_wrt (\<lambda>a b. score a \<ge> score b) ys"
  shows "sorted_wrt (\<lambda>a b. score a \<ge> score b) (insert_after_ties (\<lambda>a b. score a > score b) x ys)"
  using assms
proof (induction ys)
  case Nil
  then show ?case by simp
next
  case (Cons y ys)
  have "set (insert_after_ties (\<lambda>a b. score a > score b) x ys) = insert x (set ys)"
    using mset_insert_after_ties [of "\<lambda>a b. score a > score b" x ys]
    by (metis set_mset_add_mset_insert set_mset_mset)
  with Cons show ?case by auto
qed


lemma foldl_insert_after_ties:
  fixes score :: "'a \<Rightarrow> real"
  assumes "sorted_wrt (\<lambda>a b. score a \<ge> score b) placed"
  shows "mset (foldl (\<lambda>placed x. insert_after_ties (\<lambda>a b. score a > score b) x placed) placed xs)
           = mset placed + mset xs
       \<and> sorted_wrt (\<lambda>a b. score a \<ge> score b)
           (foldl (\<lambda>placed x. insert_after_ties (\<lambda>a b. score a > score b) x placed) placed xs)"
  using assms
proof (induction xs arbitrary: placed)
  case Nil
  then show ?case by simp
next
  case (Cons x xs)
  from Cons.IH [OF sorted_insert_after_ties [OF Cons.prems, of x]]
  show ?case by (simp add: mset_insert_after_ties)
qed


lemma insertion_sort_contract: "sort_Slice_contract insertion_sort"
  unfolding sort_Slice_contract_def insertion_sort_def
proof (intro allI)
  fix score :: "nat \<Rightarrow> real" and xs
  show "mset (foldl (\<lambda>placed x. insert_after_ties (\<lambda>a b. score a > score b) x placed) [] xs) = mset xs
       \<and> sorted_wrt (\<lambda>a b. score a \<ge> score b)
           (foldl (\<lambda>placed x. insert_after_ties (\<lambda>a b. score a > score b) x placed) [] xs)"
    using foldl_insert_after_ties [of score "[]" xs] by simp
qed


lemma contract_mset:
  "sort_Slice_contract sort_Slice \<Longrightarrow> mset (sort_Slice (\<lambda>a b. score a > score b) xs) = mset xs"
  for score :: "nat \<Rightarrow> real"
  by (simp add: sort_Slice_contract_def)


lemma contract_length:
  "sort_Slice_contract sort_Slice \<Longrightarrow> length (sort_Slice (\<lambda>a b. score a > score b) xs) = length xs"
  for score :: "nat \<Rightarrow> real"
  using contract_mset [of sort_Slice score xs] by (metis size_mset)

subsection \<open>The blocks of QuerySimilarity\<close>




text \<open>The state after the sorting block.\<close>

lemma sort_block_eq:
  assumes "sort_Slice_contract sort_Slice" "len vectors \<le> cap vectors"
    and score: "score = map_at (build_sortMap (elems vectors) similarities)"
    and ranked: "ranked = sort_Slice (\<lambda>a b. score a > score b) (elems vectors)"
  shows "sort_block sort_Slice vectors similarities =
           (\<lparr>array = ranked @ drop (len vectors) (array vectors), len = len vectors\<rparr>,
            \<lparr>array = map score ranked, len = len vectors\<rparr>)"
proof -
  have n: "length (elems vectors) = len vectors"
    using assms(2) by (simp add: elems_def cap_def)
  have ls: "length ranked = len vectors"
    unfolding ranked using contract_length [OF assms(1)] n by simp
  have el: "elems (vectors\<lparr>array := ranked @ drop (len vectors) (array vectors)\<rparr>) = ranked"
    using ls by (simp add: elems_def)
  have "sort_block sort_Slice vectors similarities =
          (vectors\<lparr>array := ranked @ drop (len vectors) (array vectors)\<rparr>,
           make_slice (map score (elems (vectors\<lparr>array := ranked @ drop (len vectors) (array vectors)\<rparr>))))"
    unfolding sort_block_def Let_def score ranked by simp
  then show ?thesis
    using el ls by (simp add: make_slice_def)
qed

text \<open>
  \<open>cutoffIndex\<close> is the length of the longest prefix of scores that are not below
  \<open>outlier\<close> when some score is below it, and 0 when none is.
\<close>

lemma find_cutoffIndex_eq:
  "find_cutoffIndex outlier k xs =
     (if \<exists>x \<in> set xs. x < outlier then k + length (takeWhile (\<lambda>x. \<not> x < outlier) xs) else 0)"
  by (induction xs arbitrary: k) auto

lemma find_cutoffIndex_le: "find_cutoffIndex outlier 0 xs \<le> length xs"
  by (simp add: find_cutoffIndex_eq length_takeWhile_le)

text \<open>
  When some score is below the threshold, the scores up to \<open>cutoffIndex\<close> are the longest
  prefix of scores that are at least the threshold.
\<close>

lemma cutoff_is_longest_prefix:
  assumes "\<exists>x \<in> set xs. x < outlier"
  shows "take (find_cutoffIndex outlier 0 xs) xs = longest_prefix_at_least outlier xs"
proof -
  have "(\<lambda>x. \<not> x < outlier) = (\<lambda>score. score \<ge> outlier)"
    by (simp add: fun_eq_iff not_less)
  then show ?thesis
    using assms by (simp add: find_cutoffIndex_eq longest_prefix_at_least_def takeWhile_eq_take [symmetric])
qed

lemma cutoff_block_eq:
  "\<exists>cutoffIndex \<le> length (take c sa).
     cutoff_block k (\<lparr>array = va, len = c\<rparr>, \<lparr>array = sa, len = c\<rparr>) =
       (\<lparr>array = va, len = cutoffIndex\<rparr>, \<lparr>array = sa, len = cutoffIndex\<rparr>)"
proof -
  obtain mean stdDev where ms: "meanAndStandardDeviation (take c sa) = (mean, stdDev)"
    by (cases "meanAndStandardDeviation (take c sa)")
  have "cutoff_block k (\<lparr>array = va, len = c\<rparr>, \<lparr>array = sa, len = c\<rparr>) =
       (\<lparr>array = va, len = find_cutoffIndex (mean + k * stdDev) 0 (take c sa)\<rparr>,
        \<lparr>array = sa, len = find_cutoffIndex (mean + k * stdDev) 0 (take c sa)\<rparr>)"
    by (simp add: cutoff_block_def Let_def elems_def ms)
  then show ?thesis
    using find_cutoffIndex_le [of "mean + k * stdDev" "take c sa"] by blast
qed

lemma limit_block_eq:
  assumes "limit \<noteq> 0"
  shows "limit_block limit (\<lparr>array = va, len = c\<rparr>, \<lparr>array = sa, len = c'\<rparr>) =
           (if limit < 0 \<or> int (length sa) < limit \<or> int (length va) < limit then Panics SliceBoundsOutOfRange
            else Returns (\<lparr>array = va, len = nat limit\<rparr>, \<lparr>array = sa, len = nat limit\<rparr>))"
  using assms by (auto simp: limit_block_def slice_to_def cap_def)

text \<open>
  What a call of \<open>QuerySimilarity\<close> does once \<open>Query\<close> and \<open>SimilarityToVectorSet\<close> have
  returned: the arrays of the two result slices are those the sorting block leaves, and
  only their length depends on the cutoff and the limit.
\<close>

lemma QuerySimilarity_after_sort:
  assumes contract: "sort_Slice_contract sort_Slice"
    and wf: "len vectors \<le> cap vectors"
    and sims: "SimilarityToVectorSet lib target (map heap (elems vectors))
                 (SimilarityOptions (options_or_default options)) = Returns similarities"
    and score: "score = map_at (build_sortMap (elems vectors) similarities)"
    and ranked: "ranked = sort_Slice (\<lambda>a b. score a > score b) (elems vectors)"
    and va: "va = ranked @ drop (len vectors) (array vectors)"
  shows "\<exists>c \<le> len vectors.
           (\<not> StdDeviations (options_or_default options) > 0 \<longrightarrow> c = len vectors) \<and>
           QuerySimilarity lib sort_Slice heap target (Inr vectors) options =
             limit_block (Limit (options_or_default options))
               (\<lparr>array = va, len = c\<rparr>, \<lparr>array = map score ranked, len = c\<rparr>)"
proof -
  have sb: "sort_block sort_Slice vectors similarities =
              (\<lparr>array = va, len = len vectors\<rparr>, \<lparr>array = map score ranked, len = len vectors\<rparr>)"
    unfolding va by (rule sort_block_eq [OF contract wf score ranked])
  have n: "length (elems vectors) = len vectors"
    using wf by (simp add: elems_def cap_def)
  have lr: "length ranked = len vectors"
    unfolding ranked using contract_length [OF contract] n by simp
  show ?thesis
  proof (cases "StdDeviations (options_or_default options) > 0")
    case True
    obtain c where c: "c \<le> length (take (len vectors) (map score ranked))"
      and cut: "cutoff_block (StdDeviations (options_or_default options))
                  (\<lparr>array = va, len = len vectors\<rparr>, \<lparr>array = map score ranked, len = len vectors\<rparr>)
                = (\<lparr>array = va, len = c\<rparr>, \<lparr>array = map score ranked, len = c\<rparr>)"
      using cutoff_block_eq by blast
    have "c \<le> len vectors" using c lr by simp
    moreover have "QuerySimilarity lib sort_Slice heap target (Inr vectors) options =
             limit_block (Limit (options_or_default options))
               (\<lparr>array = va, len = c\<rparr>, \<lparr>array = map score ranked, len = c\<rparr>)"
      unfolding QuerySimilarity_def Let_def using sims True sb cut by simp
    ultimately show ?thesis using True by blast
  next
    case False
    have "QuerySimilarity lib sort_Slice heap target (Inr vectors) options =
             limit_block (Limit (options_or_default options))
               (\<lparr>array = va, len = len vectors\<rparr>, \<lparr>array = map score ranked, len = len vectors\<rparr>)"
      unfolding QuerySimilarity_def Let_def using sims False sb by simp
    then show ?thesis by blast
  qed
qed




text \<open>
  Claim C10, as the code has it, for any sorting function that keeps the promise of
  \<open>sort.Slice\<close>. With a limit other than 0, a call that has its candidates and their scores
  panics exactly when the limit is negative or greater than the number of candidates that
  \<open>Query\<close> returned; otherwise it returns the first \<open>Limit\<close> entries of the sorted candidates
  and scores, whatever the cutoff had left.
\<close>

theorem QuerySimilarity_limit:
  assumes contract: "sort_Slice_contract sort_Slice"
    and wf: "len vectors \<le> cap vectors"
    and sims: "SimilarityToVectorSet lib target (map heap (elems vectors))
                 (SimilarityOptions (options_or_default options)) = Returns similarities"
    and limit: "Limit (options_or_default options) \<noteq> 0"
  shows "QuerySimilarity lib sort_Slice heap target (Inr vectors) options =
           (if Limit (options_or_default options) < 0
               \<or> int (len vectors) < Limit (options_or_default options)
            then Panics SliceBoundsOutOfRange
            else (case sort_block sort_Slice vectors similarities of
                    (sortedVectors, sortedSimilarities) \<Rightarrow>
                      Returns (sortedVectors\<lparr>len := nat (Limit (options_or_default options))\<rparr>,
                               sortedSimilarities\<lparr>len := nat (Limit (options_or_default options))\<rparr>)))"
proof -
  define score where "score = map_at (build_sortMap (elems vectors) similarities)"
  define ranked where "ranked = sort_Slice (\<lambda>a b. score a > score b) (elems vectors)"
  define va where "va = ranked @ drop (len vectors) (array vectors)"
  have sb: "sort_block sort_Slice vectors similarities =
              (\<lparr>array = va, len = len vectors\<rparr>, \<lparr>array = map score ranked, len = len vectors\<rparr>)"
    unfolding va_def by (rule sort_block_eq [OF contract wf score_def ranked_def])
  have n: "length (elems vectors) = len vectors"
    using wf by (simp add: elems_def cap_def)
  have lr: "length ranked = len vectors"
    unfolding ranked_def using contract_length [OF contract] n by simp
  have lva: "len vectors \<le> length va"
    unfolding va_def using lr by simp
  obtain c where "QuerySimilarity lib sort_Slice heap target (Inr vectors) options =
             limit_block (Limit (options_or_default options))
               (\<lparr>array = va, len = c\<rparr>, \<lparr>array = map score ranked, len = c\<rparr>)"
    using QuerySimilarity_after_sort [OF contract wf sims score_def ranked_def va_def] by blast
  also have "\<dots> = (if Limit (options_or_default options) < 0
                       \<or> int (length (map score ranked)) < Limit (options_or_default options)
                       \<or> int (length va) < Limit (options_or_default options)
                    then Panics SliceBoundsOutOfRange
                    else Returns (\<lparr>array = va, len = nat (Limit (options_or_default options))\<rparr>,
                          \<lparr>array = map score ranked, len = nat (Limit (options_or_default options))\<rparr>))"
    by (rule limit_block_eq [OF limit])
  also have "\<dots> = (if Limit (options_or_default options) < 0
                       \<or> int (len vectors) < Limit (options_or_default options)
                    then Panics SliceBoundsOutOfRange
                    else Returns (\<lparr>array = va, len = nat (Limit (options_or_default options))\<rparr>,
                          \<lparr>array = map score ranked, len = nat (Limit (options_or_default options))\<rparr>))"
    using lr lva by auto
  finally show ?thesis
    unfolding sb by simp
qed

lemmas query_defs =
  QuerySimilarity_def options_or_default_def DefaultFilterOptions_def
  sort_block_def cutoff_block_def limit_block_def meanAndStandardDeviation_def
  build_sortMap_def map_at_def make_slice_def elems_def cap_def slice_to_def
  insertion_sort_def

lemma example_scores:
  "SimilarityToVectorSet example_govector vec_1 (map example_heap (elems (make_slice [0, 1])))
     (SimilarityOptions (options_or_default
        (Some \<lparr>SimilarityOptions = Some \<lparr>Method = DOT_PRODUCT, Workers = 2\<rparr>,
               StdDeviations = stdDeviations, Limit = limit\<rparr>)))
     = Returns [3, 1]"
  by (simp add: similarity_defs example_vector_defs options_or_default_def make_slice_def elems_def)

lemma example_sort_block:
  "sort_block insertion_sort (make_slice [0, 1]) [3, 1]
     = (\<lparr>array = [0, 1], len = 2\<rparr>, \<lparr>array = [3, 1], len = 2\<rparr>)"
  by (simp add: query_defs)

text \<open>
  Claim C10 at a concrete call: two candidates with the scores 3 and 1, one standard
  deviation. With the limit 2 the call returns both entries; with the limit 3, which
  exceeds the number of candidates, it panics.
\<close>

theorem QuerySimilarity_limit_witness:
  "sort_Slice_contract insertion_sort
   \<and> len (make_slice [0, 1 :: nat]) \<le> cap (make_slice [0, 1 :: nat])
   \<and> SimilarityToVectorSet example_govector vec_1 (map example_heap (elems (make_slice [0, 1])))
        (SimilarityOptions (options_or_default
           (Some \<lparr>SimilarityOptions = Some \<lparr>Method = DOT_PRODUCT, Workers = 2\<rparr>,
                  StdDeviations = 1, Limit = 2\<rparr>))) = Returns [3, 1]
   \<and> Limit (options_or_default
           (Some \<lparr>SimilarityOptions = Some \<lparr>Method = DOT_PRODUCT, Workers = 2\<rparr>,
                  StdDeviations = 1, Limit = 2\<rparr>)) \<noteq> 0
   \<and> QuerySimilarity example_govector insertion_sort example_heap vec_1 (Inr (make_slice [0, 1]))
        (Some \<lparr>SimilarityOptions = Some \<lparr>Method = DOT_PRODUCT, Workers = 2\<rparr>, StdDeviations = 1, Limit = 2\<rparr>)
      = Returns (\<lparr>array = [0, 1], len = 2\<rparr>, \<lparr>array = [3, 1], len = 2\<rparr>)
   \<and> QuerySimilarity example_govector insertion_sort example_heap vec_1 (Inr (make_slice [0, 1]))
        (Some \<lparr>SimilarityOptions = Some \<lparr>Method = DOT_PRODUCT, Workers = 2\<rparr>, StdDeviations = 1, Limit = 3\<rparr>)
      = Panics SliceBoundsOutOfRange"
proof -
  have wf: "len (make_slice [0, 1 :: nat]) \<le> cap (make_slice [0, 1 :: nat])"
    by (simp add: make_slice_def cap_def)
  have lim2: "Limit (options_or_default
           (Some \<lparr>SimilarityOptions = Some \<lparr>Method = DOT_PRODUCT, Workers = 2\<rparr>,
                  StdDeviations = 1, Limit = 2\<rparr>)) \<noteq> 0"
    by (simp add: options_or_default_def)
  have lim3: "Limit (options_or_default
           (Some \<lparr>SimilarityOptions = Some \<lparr>Method = DOT_PRODUCT, Workers = 2\<rparr>,
                  StdDeviations = 1, Limit = 3\<rparr>)) \<noteq> 0"
    by (simp add: options_or_default_def)
  have two: "QuerySimilarity example_govector insertion_sort example_heap vec_1 (Inr (make_slice [0, 1]))
        (Some \<lparr>SimilarityOptions = Some \<lparr>Method = DOT_PRODUCT, Workers = 2\<rparr>, StdDeviations = 1, Limit = 2\<rparr>)
      = Returns (\<lparr>array = [0, 1], len = 2\<rparr>, \<lparr>array = [3, 1], len = 2\<rparr>)"
    using QuerySimilarity_limit [OF insertion_sort_contract wf example_scores lim2]
    unfolding example_sort_block by (simp add: options_or_default_def make_slice_def)
  have three: "QuerySimilarity example_govector insertion_sort example_heap vec_1 (Inr (make_slice [0, 1]))
        (Some \<lparr>SimilarityOptions = Some \<lparr>Method = DOT_PRODUCT, Workers = 2\<rparr>, StdDeviations = 1, Limit = 3\<rparr>)
      = Panics SliceBoundsOutOfRange"
    using QuerySimilarity_limit [OF insertion_sort_contract wf example_scores lim3]
    unfolding example_sort_block by (simp add: options_or_default_def make_slice_def)
  from insertion_sort_contract wf example_scores lim2 two three show ?thesis
    by (intro conjI)
qed

text \<open>
  Claim C10, as stated, fails. Two candidates score 3 and 1; with one standard deviation
  the threshold is 3, and the cutoff leaves one result, as the call with the limit 0
  shows. With the limit 2, which is greater than the one result remaining, the call
  returns normally, with both candidates.
\<close>

theorem QuerySimilarity_limit_beyond_cutoff_returns:
  "QuerySimilarity example_govector insertion_sort example_heap vec_1 (Inr (make_slice [0, 1]))
     (Some \<lparr>SimilarityOptions = Some \<lparr>Method = DOT_PRODUCT, Workers = 2\<rparr>, StdDeviations = 1, Limit = 0\<rparr>)
     = Returns (\<lparr>array = [0, 1], len = 1\<rparr>, \<lparr>array = [3, 1], len = 1\<rparr>)
   \<and> QuerySimilarity example_govector insertion_sort example_heap vec_1 (Inr (make_slice [0, 1]))
     (Some \<lparr>SimilarityOptions = Some \<lparr>Method = DOT_PRODUCT, Workers = 2\<rparr>, StdDeviations = 1, Limit = 2\<rparr>)
     = Returns (\<lparr>array = [0, 1], len = 2\<rparr>, \<lparr>array = [3, 1], len = 2\<rparr>)"
  by (simp add: query_defs similarity_defs example_vector_defs)



text \<open>
  Claim C1 on the code. A single candidate scores 1 under the default options (cosine,
  1.5 standard deviations, no limit): the mean is 1, the standard deviation 0 and the
  threshold 1, so the candidate's score clears the threshold and the longest prefix of
  scores at least the threshold is the whole list; the call returns no result. The same
  happens with two candidates that both score 1.
\<close>

theorem QuerySimilarity_cutoff_drops_equal_scores:
  "QuerySimilarity example_govector insertion_sort example_heap vec_1 (Inr (make_slice [1])) None
     = Returns (\<lparr>array = [1], len = 0\<rparr>, \<lparr>array = [1], len = 0\<rparr>)
   \<and> elems \<lparr>array = [1 :: nat], len = 0\<rparr> = []
   \<and> meanAndStandardDeviation [1] = (1, 0)
   \<and> longest_prefix_at_least (1 + 3 / 2 * 0) [1] = [1]
   \<and> QuerySimilarity example_govector insertion_sort example_heap vec_1 (Inr (make_slice [1, 2])) None
     = Returns (\<lparr>array = [1, 2], len = 0\<rparr>, \<lparr>array = [1, 1], len = 0\<rparr>)"
  by (simp add: query_defs similarity_defs example_vector_defs longest_prefix_at_least_def)

end
